theory Spec2Isabelle
  imports Complex_Main
begin

section \<open>The polling client of the video translation server\<close>

text \<open>
  A shallow embedding of \<^verbatim>\<open>client.js\<close>: the function \<^verbatim>\<open>defaultPollingStrategy\<close> and the
  class \<^verbatim>\<open>VideoTranslationClient\<close> with its constructor, \<^verbatim>\<open>getStatus\<close>, \<^verbatim>\<open>_sleep\<close> and
  \<^verbatim>\<open>waitForCompletion\<close>.

  The instance fields are a record that every method takes and returns. The outside world
  (the clock read by \<^verbatim>\<open>Date.now()\<close>, the HTTP transport behind \<^verbatim>\<open>axios.get\<close>, the timer
  behind \<^verbatim>\<open>setTimeout\<close>) is an explicit environment together with a world state that records
  the current time and every request and sleep in order. A thrown exception is the left
  summand of the result. The \<^verbatim>\<open>while\<close> loop is a recursion on a number of iterations still
  allowed (fuel): the loop of the source can run forever, and \<open>None\<close> stands for a run that
  has not finished within the fuel.

  Delays, clock readings and the attempt counter are integers; numbers inside a response
  body are rationals. (JavaScript numbers are IEEE doubles; the model covers the range in
  which the arithmetic of the source is exact.) Console output is not modelled, except that
  the one log line that prints fields of the response body, and so can throw, throws in the
  model where it does in the source.
\<close>

subsection \<open>Values\<close>

text \<open>
  A JavaScript value as it can appear in a field of a parsed JSON body: a primitive, an
  array, or an object with its own keys in order (\<open>Undefined\<close> is what a missing property
  reads as).
\<close>

datatype jsval =
  Undefined | Null | Bool bool | Num rat | Str string
| Arr "jsval list" | Obj "(string \<times> jsval) list"

text \<open>
  Whether a template literal can turn the value into text. A primitive always converts. An
  object made by \<^verbatim>\<open>JSON.parse\<close> converts through \<^verbatim>\<open>Object.prototype.toString\<close> unless it has
  a key \<^verbatim>\<open>toString\<close> of its own, whose value is never callable: then the conversion throws
  a TypeError. An array converts through \<^verbatim>\<open>join\<close>, which converts every element.
\<close>

fun converts_to_text :: "jsval \<Rightarrow> bool"
  and all_convert_to_text :: "jsval list \<Rightarrow> bool" where
  "converts_to_text Undefined = True"
| "converts_to_text Null = True"
| "converts_to_text (Bool b) = True"
| "converts_to_text (Num r) = True"
| "converts_to_text (Str s) = True"
| "converts_to_text (Arr vs) = all_convert_to_text vs"
| "converts_to_text (Obj kvs) = (''toString'' \<notin> fst ` set kvs)"
| "all_convert_to_text [] = True"
| "all_convert_to_text (v # vs) = (converts_to_text v \<and> all_convert_to_text vs)"

text \<open>The operator \<^verbatim>\<open>??\<close> on such values.\<close>

fun coalesce :: "jsval \<Rightarrow> jsval \<Rightarrow> jsval" where
  "coalesce Undefined d = d"
| "coalesce Null d = d"
| "coalesce v d = v"

text \<open>
  The third argument of a polling strategy: no object at all, or an object whose property
  \<^verbatim>\<open>remainingSeconds\<close> is missing (\<open>None\<close>, the literal \<^verbatim>\<open>{}\<close>) or set (\<^verbatim>\<open>{ remainingSeconds }\<close>).
\<close>

datatype server_hint = HintAbsent | HintObj "jsval option"

fun hint_remainingSeconds :: "jsval option \<Rightarrow> jsval" where
  "hint_remainingSeconds None = Undefined"
| "hint_remainingSeconds (Some v) = v"

text \<open>
  What \<^verbatim>\<open>response.data\<close> can be, seen through the destructuring
  \<^verbatim>\<open>const { result, remainingSeconds } = serverResponse\<close>: on \<^verbatim>\<open>null\<close> or \<^verbatim>\<open>undefined\<close> the
  destructuring throws a TypeError; on anything else it reads the two properties, and a
  property that is missing reads as \<open>Undefined\<close>.
\<close>

datatype response = Nullish | Fields jsval jsval

text \<open>A body that the client can take apart and log: not nullish, both fields convert to text.\<close>

fun readable_body :: "response \<Rightarrow> bool" where
  "readable_body Nullish = False"
| "readable_body (Fields result remainingSeconds) =
     (converts_to_text result \<and> converts_to_text remainingSeconds)"

text \<open>A thrown error object: the name of its class and its message.\<close>

record js_error =
  name :: string
  message :: string

definition new_Error :: "string \<Rightarrow> js_error" where
  "new_Error msg = \<lparr>name = ''Error'', message = msg\<rparr>"

text \<open>
  The TypeError that the engine raises on destructuring a nullish value. Its message is
  written by the engine, not by the client; the wording here is V8's for a null body.
\<close>

definition destructure_TypeError :: js_error where
  "destructure_TypeError =
     \<lparr>name = ''TypeError'',
      message = ''Cannot destructure property 'result' of 'serverResponse' as it is null.''\<rparr>"

text \<open>The TypeError of a template literal whose value does not convert (V8's wording).\<close>

definition convert_TypeError :: js_error where
  "convert_TypeError =
     \<lparr>name = ''TypeError'', message = ''Cannot convert object to primitive value''\<rparr>"

subsection \<open>Numbers in template literals\<close>

text \<open>The decimal text of an integer, as \<^verbatim>\<open>${...}\<close> renders it; \<open>digit_char\<close> is used below 10 only.\<close>

definition digit_char :: "nat \<Rightarrow> char" where
  "digit_char d = ''0123456789'' ! d"

fun string_of_nat :: "nat \<Rightarrow> string" where
  "string_of_nat n =
     (if n < 10 then [digit_char n] else string_of_nat (n div 10) @ [digit_char (n mod 10)])"

declare string_of_nat.simps [simp del]

definition string_of_int :: "int \<Rightarrow> string" where
  "string_of_int i = (if i < 0 then CHR ''-'' # string_of_nat (nat (- i)) else string_of_nat (nat i))"

subsection \<open>The default polling strategy\<close>

type_synonym polling_strategy = "int \<Rightarrow> int \<Rightarrow> server_hint \<Rightarrow> int"

text \<open>
  The guard of the source is
  \<^verbatim>\<open>serverHint && typeof serverHint.remainingSeconds === 'number' && serverHint.remainingSeconds < 5\<close>:
  the hint is an object, its \<^verbatim>\<open>remainingSeconds\<close> is a number, and that number is below 5.
\<close>

fun defaultPollingStrategy :: polling_strategy where
  "defaultPollingStrategy attempt previousDelay HintAbsent = previousDelay * 2"
| "defaultPollingStrategy attempt previousDelay (HintObj h) =
     (case hint_remainingSeconds h of
        Num r \<Rightarrow> if r < 5 then 1000 else previousDelay * 2
      | _ \<Rightarrow> previousDelay * 2)"

subsection \<open>The client object\<close>

record client =
  baseUrl :: string
  initialDelay :: int
  maxAttempts :: int
  pollingStrategy :: polling_strategy
  maxDurationMs :: int
  token :: "string option"
  attempt :: int
  currentDelay :: int
  startTime :: int

text \<open>The \<^verbatim>\<open>options\<close> argument of the constructor; \<open>None\<close> is a missing (or null) option.\<close>

record options =
  opt_initialDelay :: "int option"
  opt_maxAttempts :: "int option"
  opt_pollingStrategy :: "polling_strategy option"
  opt_maxDurationMs :: "int option"
  opt_token :: "string option"

fun nullish_or :: "'a option \<Rightarrow> 'a \<Rightarrow> 'a" where
  "nullish_or None d = d"
| "nullish_or (Some v) d = v"

text \<open>The constructor; \<open>now\<close> is what \<^verbatim>\<open>Date.now()\<close> returns when it runs.\<close>

definition constructor :: "string \<Rightarrow> options \<Rightarrow> int \<Rightarrow> client" where
  "constructor url opts now =
     \<lparr>baseUrl = url,
      initialDelay = nullish_or (opt_initialDelay opts) 1000,
      maxAttempts = nullish_or (opt_maxAttempts opts) 10,
      pollingStrategy = nullish_or (opt_pollingStrategy opts) defaultPollingStrategy,
      maxDurationMs = nullish_or (opt_maxDurationMs opts) 30000,
      token = opt_token opts,
      attempt = 0,
      currentDelay = nullish_or (opt_initialDelay opts) 1000,
      startTime = now\<rparr>"

subsection \<open>The world: clock, transport and timer\<close>

datatype event = Get string "(string \<times> string) list" | Sleep int

text \<open>
  The world state: the clock, how many requests and sleeps have happened, and the trace of
  both, oldest first.
\<close>

record world =
  clock :: int
  calls :: nat
  sleeps :: nat
  trace :: "event list"

text \<open>
  The environment: the \<open>k\<close>-th request takes \<open>fst (transport env k)\<close> milliseconds and then
  fails with a message or delivers a body; the \<open>k\<close>-th timer fires \<open>overshoot env k\<close>
  milliseconds late.
\<close>

record env =
  transport :: "nat \<Rightarrow> nat \<times> (string + response)"
  overshoot :: "nat \<Rightarrow> nat"

text \<open>
  \<^verbatim>\<open>axios.get(url, { headers })\<close>: the request is recorded, the clock advances by its
  latency, and the reply is the error message of a failed request or the body of a
  successful one.
\<close>

definition axios_get :: "env \<Rightarrow> string \<Rightarrow> (string \<times> string) list \<Rightarrow> world \<Rightarrow> (string + response) \<times> world" where
  "axios_get env url headers w =
     (snd (transport env (calls w)),
      w\<lparr>clock := clock w + int (fst (transport env (calls w))),
        calls := Suc (calls w),
        trace := trace w @ [Get url headers]\<rparr>)"

text \<open>\<^verbatim>\<open>getStatus\<close>: one GET of \<^verbatim>\<open>${baseUrl}/status\<close>, with the bearer token when it is truthy.\<close>

definition auth_headers :: "string option \<Rightarrow> (string \<times> string) list" where
  "auth_headers t =
     (case t of
        None \<Rightarrow> []
      | Some s \<Rightarrow> if s = [] then [] else [(''Authorization'', ''Bearer '' @ s)])"

definition getStatus :: "env \<Rightarrow> client \<Rightarrow> world \<Rightarrow> (js_error + response) \<times> world" where
  "getStatus env c w =
     (case axios_get env (baseUrl c @ ''/status'') (auth_headers (token c)) w of
        (Inl msg, w') \<Rightarrow> (Inl (new_Error (''Error fetching status: '' @ msg)), w')
      | (Inr data, w') \<Rightarrow> (Inr data, w'))"

text \<open>\<^verbatim>\<open>_sleep\<close>: a timer of \<open>ms\<close> milliseconds; a negative duration fires at once.\<close>

definition sleep :: "env \<Rightarrow> int \<Rightarrow> world \<Rightarrow> world" where
  "sleep env ms w =
     w\<lparr>clock := clock w + max 0 ms + int (overshoot env (sleeps w)),
       sleeps := Suc (sleeps w),
       trace := trace w @ [Sleep ms]\<rparr>"

subsection \<open>The errors that waitForCompletion throws\<close>

definition timed_out_error :: "client \<Rightarrow> js_error" where
  "timed_out_error c =
     new_Error (''[ERROR] Timed out after '' @ string_of_int (maxDurationMs c)
                @ ''ms without completion.'')"

definition repeated_errors_error :: "client \<Rightarrow> js_error" where
  "repeated_errors_error c =
     new_Error (''[ERROR] Max attempts ('' @ string_of_int (maxAttempts c)
                @ '') reached with repeated errors.'')"

definition server_error :: js_error where
  "server_error = new_Error ''[ERROR] Server returned \"error\" status.''"

definition without_completion_error :: "client \<Rightarrow> js_error" where
  "without_completion_error c =
     new_Error (''[ERROR] Max attempts ('' @ string_of_int (maxAttempts c)
                @ '') reached without completion.'')"

subsection \<open>waitForCompletion\<close>

text \<open>
  One pass through the body of the \<^verbatim>\<open>while\<close> loop: it ends the call or goes round again.
  Of the console output only the line that can throw is kept: after a successful request
  the source logs \<^verbatim>\<open>result: ${result}, remainingSeconds: ${remainingSeconds ?? 'N/A'}\<close>, and
  a value that does not convert to text makes that line throw before the result is looked
  at. (The other lines print numbers and strings only.)
\<close>

datatype step = Continue client world | Done "js_error + string" client world

definition loop_body :: "env \<Rightarrow> client \<Rightarrow> world \<Rightarrow> step" where
  "loop_body env c w =
     (let elapsedMs = clock w - startTime c in
      if elapsedMs > maxDurationMs c then Done (Inl (timed_out_error c)) c w
      else
        (case getStatus env c w of
           (Inl err, w1) \<Rightarrow>
             (if attempt c \<ge> maxAttempts c then Done (Inl (repeated_errors_error c)) c w1
              else
                (let w2 = sleep env (currentDelay c) w1;
                     c2 = c\<lparr>currentDelay :=
                               pollingStrategy c (attempt c) (currentDelay c) (HintObj None)\<rparr>
                 in Continue c2 w2))
         | (Inr serverResponse, w1) \<Rightarrow>
             (let c1 = c\<lparr>attempt := attempt c + 1\<rparr> in
              (case serverResponse of
                 Nullish \<Rightarrow> Done (Inl destructure_TypeError) c1 w1
               | Fields result remainingSeconds \<Rightarrow>
                   (if \<not> (converts_to_text result
                           \<and> converts_to_text (coalesce remainingSeconds (Str ''N/A'')))
                    then Done (Inl convert_TypeError) c1 w1
                    else if result = Str ''completed'' then Done (Inr ''completed'') c1 w1
                    else if result = Str ''error'' then Done (Inl server_error) c1 w1
                    else
                      (let w2 = sleep env (currentDelay c1) w1;
                           c2 = c1\<lparr>currentDelay :=
                                      pollingStrategy c1 (attempt c1) (currentDelay c1)
                                        (HintObj (Some remainingSeconds))\<rparr>
                       in Continue c2 w2))))))"

text \<open>The loop, with \<open>None\<close> when the iterations allowed are used up before it ends.\<close>

fun wait_loop :: "nat \<Rightarrow> env \<Rightarrow> client \<Rightarrow> world \<Rightarrow> ((js_error + string) \<times> client \<times> world) option" where
  "wait_loop 0 env c w = None"
| "wait_loop (Suc n) env c w =
     (if attempt c < maxAttempts c then
        (case loop_body env c w of
           Continue c' w' \<Rightarrow> wait_loop n env c' w'
         | Done r c' w' \<Rightarrow> Some (r, c', w'))
      else Some (Inl (without_completion_error c), c, w))"

definition waitForCompletion :: "nat \<Rightarrow> env \<Rightarrow> client \<Rightarrow> world \<Rightarrow> ((js_error + string) \<times> client \<times> world) option" where
  "waitForCompletion fuel env c w = wait_loop fuel env c w"

subsection \<open>Scenarios\<close>

text \<open>A world in which nothing has happened yet, and the constructor called without options.\<close>

definition new_world :: "int \<Rightarrow> world" where
  "new_world now = \<lparr>clock = now, calls = 0, sleeps = 0, trace = []\<rparr>"

definition no_options :: options where
  "no_options =
     \<lparr>opt_initialDelay = None, opt_maxAttempts = None, opt_pollingStrategy = None,
      opt_maxDurationMs = None, opt_token = None\<rparr>"

text \<open>Environments with instant requests and exact timers, one per behaviour of the server.\<close>

definition refusing_env :: env where
  "refusing_env =
     \<lparr>transport = (\<lambda>k. (0, Inl ''connect ECONNREFUSED 127.0.0.1:3000'')),
      overshoot = (\<lambda>k. 0)\<rparr>"

definition pending_env :: env where
  "pending_env =
     \<lparr>transport = (\<lambda>k. (0, Inr (Fields (Str ''pending'') (Num 10)))),
      overshoot = (\<lambda>k. 0)\<rparr>"

definition error_env :: env where
  "error_env =
     \<lparr>transport = (\<lambda>k. (0, Inr (Fields (Str ''error'') Undefined))),
      overshoot = (\<lambda>k. 0)\<rparr>"

definition completed_env :: env where
  "completed_env =
     \<lparr>transport = (\<lambda>k. (0, Inr (Fields (Str ''completed'') (Num 0)))),
      overshoot = (\<lambda>k. 0)\<rparr>"

definition null_body_env :: env where
  "null_body_env = \<lparr>transport = (\<lambda>k. (0, Inr Nullish)), overshoot = (\<lambda>k. 0)\<rparr>"

text \<open>A server whose \<^verbatim>\<open>remainingSeconds\<close> is the object \<^verbatim>\<open>{"toString": 1}\<close>.\<close>

definition unprintable_env :: env where
  "unprintable_env =
     \<lparr>transport = (\<lambda>k. (0, Inr (Fields (Str ''pending'') (Obj [(''toString'', Num 1)])))),
      overshoot = (\<lambda>k. 0)\<rparr>"

text \<open>A server that answers with a result outside the three documented ones.\<close>

definition processing_env :: env where
  "processing_env =
     \<lparr>transport = (\<lambda>k. (0, Inr (Fields (Str ''processing'') (Num 3)))),
      overshoot = (\<lambda>k. 0)\<rparr>"

text \<open>Clients, all constructed at time 0.\<close>

definition default_client :: client where
  "default_client = constructor ''http://localhost:3000'' no_options 0"

definition three_attempts_client :: client where
  "three_attempts_client =
     constructor ''http://localhost:3000'' (no_options\<lparr>opt_maxAttempts := Some 3\<rparr>) 0"

definition one_attempt_client :: client where
  "one_attempt_client =
     constructor ''http://localhost:3000'' (no_options\<lparr>opt_maxAttempts := Some 1\<rparr>) 0"

text \<open>A client whose strategy always answers with a negative delay.\<close>

definition negative_delay_client :: client where
  "negative_delay_client =
     constructor ''http://localhost:3000''
       (no_options\<lparr>opt_maxAttempts := Some 2, opt_pollingStrategy := Some (\<lambda>a p h. - 5)\<rparr>) 0"

section \<open>Basic facts\<close>

subsection \<open>Unfolding the loop and its body\<close>

lemma wait_loop_unfold:
  "0 < n \<Longrightarrow> wait_loop n env c w =
     (if attempt c < maxAttempts c then
        (case loop_body env c w of
           Continue c' w' \<Rightarrow> wait_loop (n - 1) env c' w'
         | Done r c' w' \<Rightarrow> Some (r, c', w'))
      else Some (Inl (without_completion_error c), c, w))"
  by (cases n) (simp_all split: step.split)

lemmas run_simps = wait_loop_unfold waitForCompletion_def loop_body_def getStatus_def axios_get_def
  sleep_def auth_headers_def constructor_def new_world_def no_options_def Let_def

lemma getStatus_world:
  "snd (getStatus env c w) =
     w\<lparr>clock := clock w + int (fst (transport env (calls w))),
       calls := Suc (calls w),
       trace := trace w @ [Get (baseUrl c @ ''/status'') (auth_headers (token c))]\<rparr>"
  by (simp add: getStatus_def axios_get_def split: sum.split)

lemma getStatus_Inl:
  "snd (transport env (calls w)) = Inl msg \<Longrightarrow>
   fst (getStatus env c w) = Inl (new_Error (''Error fetching status: '' @ msg))"
  by (simp add: getStatus_def axios_get_def)

lemma getStatus_Inr:
  "snd (transport env (calls w)) = Inr d \<Longrightarrow> fst (getStatus env c w) = Inr d"
  by (simp add: getStatus_def axios_get_def)

lemma loop_body_timed_out:
  "maxDurationMs c < clock w - startTime c \<Longrightarrow>
   loop_body env c w = Done (Inl (timed_out_error c)) c w"
  by (simp add: loop_body_def)

lemma loop_body_failed:
  assumes "\<not> maxDurationMs c < clock w - startTime c"
    and "snd (transport env (calls w)) = Inl msg"
  shows "loop_body env c w =
     (if maxAttempts c \<le> attempt c
      then Done (Inl (repeated_errors_error c)) c (snd (getStatus env c w))
      else Continue
             (c\<lparr>currentDelay := pollingStrategy c (attempt c) (currentDelay c) (HintObj None)\<rparr>)
             (sleep env (currentDelay c) (snd (getStatus env c w))))"
  using assms getStatus_Inl [OF assms(2), of c]
  by (cases "getStatus env c w") (simp add: loop_body_def)

lemma loop_body_nullish:
  assumes "\<not> maxDurationMs c < clock w - startTime c"
    and "snd (transport env (calls w)) = Inr Nullish"
  shows "loop_body env c w =
     Done (Inl destructure_TypeError) (c\<lparr>attempt := attempt c + 1\<rparr>) (snd (getStatus env c w))"
  using assms getStatus_Inr [OF assms(2), of c]
  by (cases "getStatus env c w") (simp add: loop_body_def)

lemma coalesce_converts [simp]:
  "converts_to_text (coalesce v (Str s)) = converts_to_text v"
  by (cases v) simp_all

lemma loop_body_unprintable:
  assumes "\<not> maxDurationMs c < clock w - startTime c"
    and "snd (transport env (calls w)) = Inr (Fields result remainingSeconds)"
    and "\<not> (converts_to_text result \<and> converts_to_text remainingSeconds)"
  shows "loop_body env c w =
     Done (Inl convert_TypeError) (c\<lparr>attempt := attempt c + 1\<rparr>) (snd (getStatus env c w))"
  using assms getStatus_Inr [OF assms(2), of c]
  by (cases "getStatus env c w") (auto simp add: loop_body_def)

lemma loop_body_fields:
  assumes "\<not> maxDurationMs c < clock w - startTime c"
    and "snd (transport env (calls w)) = Inr (Fields result remainingSeconds)"
    and "converts_to_text result" and "converts_to_text remainingSeconds"
  shows "loop_body env c w =
     (if result = Str ''completed''
      then Done (Inr ''completed'') (c\<lparr>attempt := attempt c + 1\<rparr>) (snd (getStatus env c w))
      else if result = Str ''error''
      then Done (Inl server_error) (c\<lparr>attempt := attempt c + 1\<rparr>) (snd (getStatus env c w))
      else Continue
             (c\<lparr>attempt := attempt c + 1,
                currentDelay := pollingStrategy c (attempt c + 1) (currentDelay c)
                                  (HintObj (Some remainingSeconds))\<rparr>)
             (sleep env (currentDelay c) (snd (getStatus env c w))))"
  using assms getStatus_Inr [OF assms(2), of c]
  by (cases "getStatus env c w") (simp add: loop_body_def)

text \<open>Every pass through the loop body is one of seven cases.\<close>

lemma loop_body_cases
  [case_names timed_out failed nullish unprintable completed error pending]:
  assumes "maxDurationMs c < clock w - startTime c \<Longrightarrow>
           loop_body env c w = Done (Inl (timed_out_error c)) c w \<Longrightarrow> P"
    and "\<And>msg. \<not> maxDurationMs c < clock w - startTime c \<Longrightarrow>
           snd (transport env (calls w)) = Inl msg \<Longrightarrow>
           loop_body env c w =
             (if maxAttempts c \<le> attempt c
              then Done (Inl (repeated_errors_error c)) c (snd (getStatus env c w))
              else Continue
                     (c\<lparr>currentDelay :=
                          pollingStrategy c (attempt c) (currentDelay c) (HintObj None)\<rparr>)
                     (sleep env (currentDelay c) (snd (getStatus env c w)))) \<Longrightarrow> P"
    and "\<not> maxDurationMs c < clock w - startTime c \<Longrightarrow>
           snd (transport env (calls w)) = Inr Nullish \<Longrightarrow>
           loop_body env c w =
             Done (Inl destructure_TypeError) (c\<lparr>attempt := attempt c + 1\<rparr>)
               (snd (getStatus env c w)) \<Longrightarrow> P"
    and "\<And>result rs. \<not> maxDurationMs c < clock w - startTime c \<Longrightarrow>
           snd (transport env (calls w)) = Inr (Fields result rs) \<Longrightarrow>
           \<not> (converts_to_text result \<and> converts_to_text rs) \<Longrightarrow>
           loop_body env c w =
             Done (Inl convert_TypeError) (c\<lparr>attempt := attempt c + 1\<rparr>)
               (snd (getStatus env c w)) \<Longrightarrow> P"
    and "\<And>rs. \<not> maxDurationMs c < clock w - startTime c \<Longrightarrow>
           snd (transport env (calls w)) = Inr (Fields (Str ''completed'') rs) \<Longrightarrow>
           converts_to_text rs \<Longrightarrow>
           loop_body env c w =
             Done (Inr ''completed'') (c\<lparr>attempt := attempt c + 1\<rparr>)
               (snd (getStatus env c w)) \<Longrightarrow> P"
    and "\<And>rs. \<not> maxDurationMs c < clock w - startTime c \<Longrightarrow>
           snd (transport env (calls w)) = Inr (Fields (Str ''error'') rs) \<Longrightarrow>
           converts_to_text rs \<Longrightarrow>
           loop_body env c w =
             Done (Inl server_error) (c\<lparr>attempt := attempt c + 1\<rparr>)
               (snd (getStatus env c w)) \<Longrightarrow> P"
    and "\<And>result rs. \<not> maxDurationMs c < clock w - startTime c \<Longrightarrow>
           snd (transport env (calls w)) = Inr (Fields result rs) \<Longrightarrow>
           converts_to_text result \<Longrightarrow> converts_to_text rs \<Longrightarrow>
           result \<noteq> Str ''completed'' \<Longrightarrow> result \<noteq> Str ''error'' \<Longrightarrow>
           loop_body env c w =
             Continue
               (c\<lparr>attempt := attempt c + 1,
                  currentDelay := pollingStrategy c (attempt c + 1) (currentDelay c)
                                    (HintObj (Some rs))\<rparr>)
               (sleep env (currentDelay c) (snd (getStatus env c w))) \<Longrightarrow> P"
  shows P
proof (cases "maxDurationMs c < clock w - startTime c")
  case True
  then show ?thesis using assms(1) loop_body_timed_out by blast
next
  case in_time: False
  show ?thesis
  proof (cases "snd (transport env (calls w))")
    case (Inl msg)
    then show ?thesis using assms(2) in_time loop_body_failed by blast
  next
    case (Inr d)
    show ?thesis
    proof (cases d)
      case Nullish
      then show ?thesis using assms(3) in_time Inr loop_body_nullish by blast
    next
      case (Fields result rs)
      then have body: "snd (transport env (calls w)) = Inr (Fields result rs)"
        using Inr by simp
      show ?thesis
      proof (cases "converts_to_text result \<and> converts_to_text rs")
        case False
        then show ?thesis
          using assms(4) [OF in_time body] loop_body_unprintable [OF in_time body] by blast
      next
        case True
        then have ok: "converts_to_text result" "converts_to_text rs" by simp_all
        note eq = loop_body_fields [OF in_time body ok]
        consider "result = Str ''completed''" | "result = Str ''error''"
          | "result \<noteq> Str ''completed''" "result \<noteq> Str ''error''"
          by blast
        then show ?thesis
        proof cases
          case 1
          then show ?thesis using assms(5) in_time body ok eq by simp
        next
          case 2
          then show ?thesis using assms(6) in_time body ok eq by simp
        next
          case 3
          then show ?thesis using assms(7) [OF in_time body ok] eq by simp
        qed
      qed
    qed
  qed
qed

subsection \<open>Reasoning about a whole call\<close>

text \<open>
  A predicate that holds when the call starts and is kept by every pass that goes round
  again holds where the call ends.
\<close>

lemma wait_loop_invariant:
  assumes run: "wait_loop n env c w = Some (r, c', w')"
    and init: "I c w"
    and step: "\<And>c w c1 w1. I c w \<Longrightarrow> attempt c < maxAttempts c \<Longrightarrow>
                 loop_body env c w = Continue c1 w1 \<Longrightarrow> I c1 w1"
    and final: "\<And>c w r c1 w1. I c w \<Longrightarrow> attempt c < maxAttempts c \<Longrightarrow>
                 loop_body env c w = Done r c1 w1 \<Longrightarrow> Q r c1 w1"
    and exhaust: "\<And>c w. I c w \<Longrightarrow> \<not> attempt c < maxAttempts c \<Longrightarrow>
                 Q (Inl (without_completion_error c)) c w"
  shows "Q r c' w'"
  using run init
proof (induction n arbitrary: c w)
  case 0
  then show ?case by simp
next
  case (Suc n)
  show ?case
  proof (cases "attempt c < maxAttempts c")
    case False
    with Suc.prems exhaust show ?thesis by auto
  next
    case guard: True
    show ?thesis
    proof (cases "loop_body env c w")
      case (Continue c1 w1)
      with Suc.prems guard have "wait_loop n env c1 w1 = Some (r, c', w')" by simp
      moreover have "I c1 w1" using step Suc.prems(2) guard Continue by blast
      ultimately show ?thesis by (rule Suc.IH)
    next
      case (Done r1 c1 w1)
      with Suc.prems guard have "r1 = r" "c1 = c'" "w1 = w'" by simp_all
      with final Suc.prems(2) guard Done show ?thesis by blast
    qed
  qed
qed

text \<open>The loop writes no field of the instance other than the attempt counter and the delay.\<close>

lemma loop_body_frame:
  assumes "loop_body env c w = Continue c' w' \<or> loop_body env c w = Done r c' w'"
  shows "c' = c\<lparr>attempt := attempt c', currentDelay := currentDelay c'\<rparr>"
  by (rule loop_body_cases [where c = c and w = w and env = env])
    (use assms in \<open>auto split: if_splits\<close>)

lemma wait_loop_frame:
  assumes "wait_loop n env c w = Some (r, c', w')"
  shows "c' = c\<lparr>attempt := attempt c', currentDelay := currentDelay c'\<rparr>"
proof (rule wait_loop_invariant [OF assms,
      where I = "\<lambda>c1 w1. c1 = c\<lparr>attempt := attempt c1, currentDelay := currentDelay c1\<rparr>"
        and Q = "\<lambda>r c1 w1. c1 = c\<lparr>attempt := attempt c1, currentDelay := currentDelay c1\<rparr>"])
  show "c = c\<lparr>attempt := attempt c, currentDelay := currentDelay c\<rparr>" by simp
next
  fix c0 w0 c1 w1
  assume a: "c0 = c\<lparr>attempt := attempt c0, currentDelay := currentDelay c0\<rparr>"
    and b: "loop_body env c0 w0 = Continue c1 w1"
  have "c1 = c0\<lparr>attempt := attempt c1, currentDelay := currentDelay c1\<rparr>"
    using loop_body_frame b by blast
  then have "c1 = (c\<lparr>attempt := attempt c0, currentDelay := currentDelay c0\<rparr>)
                    \<lparr>attempt := attempt c1, currentDelay := currentDelay c1\<rparr>"
    using a by metis
  then show "c1 = c\<lparr>attempt := attempt c1, currentDelay := currentDelay c1\<rparr>" by simp
next
  fix c0 w0 r0 c1 w1
  assume a: "c0 = c\<lparr>attempt := attempt c0, currentDelay := currentDelay c0\<rparr>"
    and b: "loop_body env c0 w0 = Done r0 c1 w1"
  have "c1 = c0\<lparr>attempt := attempt c1, currentDelay := currentDelay c1\<rparr>"
    using loop_body_frame b by blast
  then have "c1 = (c\<lparr>attempt := attempt c0, currentDelay := currentDelay c0\<rparr>)
                    \<lparr>attempt := attempt c1, currentDelay := currentDelay c1\<rparr>"
    using a by metis
  then show "c1 = c\<lparr>attempt := attempt c1, currentDelay := currentDelay c1\<rparr>" by simp
next
  fix c0 :: client and w0 :: world
  assume "c0 = c\<lparr>attempt := attempt c0, currentDelay := currentDelay c0\<rparr>"
  then show "c0 = c\<lparr>attempt := attempt c0, currentDelay := currentDelay c0\<rparr>" .
qed

text \<open>The configuration is kept and the attempt counter moves by at most one per pass.\<close>

lemma loop_body_config:
  assumes "loop_body env c w = Continue c' w' \<or> loop_body env c w = Done r c' w'"
  shows "maxAttempts c' = maxAttempts c \<and> maxDurationMs c' = maxDurationMs c
       \<and> pollingStrategy c' = pollingStrategy c \<and> startTime c' = startTime c"
proof -
  note eq = loop_body_frame [OF assms]
  show ?thesis
    using arg_cong [OF eq, of maxAttempts] arg_cong [OF eq, of maxDurationMs]
      arg_cong [OF eq, of pollingStrategy] arg_cong [OF eq, of startTime]
    by simp
qed

lemma loop_body_attempt:
  assumes "loop_body env c w = Continue c' w' \<or> loop_body env c w = Done r c' w'"
  shows "attempt c \<le> attempt c' \<and> attempt c' \<le> attempt c + 1"
  by (rule loop_body_cases [where c = c and w = w and env = env])
    (use assms in \<open>auto split: if_splits\<close>)

lemma wait_loop_attempt_bounded:
  assumes "wait_loop n env c w = Some (r, c', w')" and "attempt c \<le> maxAttempts c"
  shows "attempt c' \<le> maxAttempts c'"
proof (rule wait_loop_invariant [OF assms(1),
      where I = "\<lambda>c1 w1. attempt c1 \<le> maxAttempts c1"
        and Q = "\<lambda>r c1 w1. attempt c1 \<le> maxAttempts c1"])
  show "attempt c \<le> maxAttempts c" by fact
next
  fix c0 w0 c1 w1
  assume guard: "attempt c0 < maxAttempts c0" and b: "loop_body env c0 w0 = Continue c1 w1"
  have "attempt c1 \<le> attempt c0 + 1" using loop_body_attempt b by blast
  moreover have "maxAttempts c1 = maxAttempts c0" using loop_body_config b by blast
  ultimately show "attempt c1 \<le> maxAttempts c1" using guard by simp
next
  fix c0 w0 r0 c1 w1
  assume guard: "attempt c0 < maxAttempts c0" and b: "loop_body env c0 w0 = Done r0 c1 w1"
  have "attempt c1 \<le> attempt c0 + 1" using loop_body_attempt b by blast
  moreover have "maxAttempts c1 = maxAttempts c0" using loop_body_config b by blast
  ultimately show "attempt c1 \<le> maxAttempts c1" using guard by simp
next
  fix c0 :: client and w0 :: world
  assume "attempt c0 \<le> maxAttempts c0"
  then show "attempt c0 \<le> maxAttempts c0" .
qed


text \<open>The world after a request or a sleep.\<close>

lemma getStatus_trace:
  "trace (snd (getStatus env c w)) =
     trace w @ [Get (baseUrl c @ ''/status'') (auth_headers (token c))]"
  by (simp add: getStatus_world)

lemma sleep_trace: "trace (sleep env ms w) = trace w @ [Sleep ms]"
  by (simp add: sleep_def)

text \<open>Delays stay non-negative under a strategy that keeps them so, as the default one does.\<close>

lemma wait_loop_delay_nonneg:
  assumes run: "wait_loop n env c w = Some (r, c', w')"
    and delay: "0 \<le> currentDelay c"
    and strategy: "\<forall>a p h. 0 \<le> p \<longrightarrow> 0 \<le> pollingStrategy c a p h"
    and sleeps: "\<forall>ms. Sleep ms \<in> set (trace w) \<longrightarrow> 0 \<le> ms"
  shows "0 \<le> currentDelay c' \<and> (\<forall>ms. Sleep ms \<in> set (trace w') \<longrightarrow> 0 \<le> ms)"
proof (rule wait_loop_invariant [OF run,
      where I = "\<lambda>c1 w1. pollingStrategy c1 = pollingStrategy c \<and> 0 \<le> currentDelay c1
                        \<and> (\<forall>ms. Sleep ms \<in> set (trace w1) \<longrightarrow> 0 \<le> ms)"
        and Q = "\<lambda>r c1 w1. 0 \<le> currentDelay c1
                        \<and> (\<forall>ms. Sleep ms \<in> set (trace w1) \<longrightarrow> 0 \<le> ms)"])
  show "pollingStrategy c = pollingStrategy c \<and> 0 \<le> currentDelay c
        \<and> (\<forall>ms. Sleep ms \<in> set (trace w) \<longrightarrow> 0 \<le> ms)"
    using delay sleeps by simp
next
  fix c0 w0 c1 w1
  assume inv: "pollingStrategy c0 = pollingStrategy c \<and> 0 \<le> currentDelay c0
        \<and> (\<forall>ms. Sleep ms \<in> set (trace w0) \<longrightarrow> 0 \<le> ms)"
    and b: "loop_body env c0 w0 = Continue c1 w1"
  then have s0: "\<forall>a p h. 0 \<le> p \<longrightarrow> 0 \<le> pollingStrategy c0 a p h"
    using strategy by simp
  have "pollingStrategy c1 = pollingStrategy c" using loop_body_config b inv by metis
  moreover have "0 \<le> currentDelay c1 \<and> (\<forall>ms. Sleep ms \<in> set (trace w1) \<longrightarrow> 0 \<le> ms)"
    by (rule loop_body_cases [where c = c0 and w = w0 and env = env])
      (use b inv s0 in \<open>auto simp: sleep_trace getStatus_trace split: if_splits\<close>)
  ultimately show "pollingStrategy c1 = pollingStrategy c \<and> 0 \<le> currentDelay c1
        \<and> (\<forall>ms. Sleep ms \<in> set (trace w1) \<longrightarrow> 0 \<le> ms)" by simp
next
  fix c0 w0 r0 c1 w1
  assume inv: "pollingStrategy c0 = pollingStrategy c \<and> 0 \<le> currentDelay c0
        \<and> (\<forall>ms. Sleep ms \<in> set (trace w0) \<longrightarrow> 0 \<le> ms)"
    and b: "loop_body env c0 w0 = Done r0 c1 w1"
  show "0 \<le> currentDelay c1 \<and> (\<forall>ms. Sleep ms \<in> set (trace w1) \<longrightarrow> 0 \<le> ms)"
    by (rule loop_body_cases [where c = c0 and w = w0 and env = env])
      (use b inv in \<open>auto simp: sleep_trace getStatus_trace split: if_splits\<close>)
next
  fix c0 :: client and w0 :: world
  assume "pollingStrategy c0 = pollingStrategy c \<and> 0 \<le> currentDelay c0
        \<and> (\<forall>ms. Sleep ms \<in> set (trace w0) \<longrightarrow> 0 \<le> ms)"
  then show "0 \<le> currentDelay c0 \<and> (\<forall>ms. Sleep ms \<in> set (trace w0) \<longrightarrow> 0 \<le> ms)"
    by simp
qed

lemma defaultPollingStrategy_nonneg: "0 \<le> p \<Longrightarrow> 0 \<le> defaultPollingStrategy a p h"
proof (cases h)
  case HintAbsent
  then show "0 \<le> p \<Longrightarrow> ?thesis" by simp
next
  case (HintObj x)
  then show "0 \<le> p \<Longrightarrow> ?thesis"
    by (cases x) (auto split: jsval.split)
qed

text \<open>The errors of a call: their texts, and which of them a call can throw.\<close>

lemmas message_simps = timed_out_error_def repeated_errors_error_def server_error_def
  without_completion_error_def new_Error_def string_of_int_def string_of_nat.simps digit_char_def

lemma error_of_config:
  assumes "maxAttempts c' = maxAttempts c" and "maxDurationMs c' = maxDurationMs c"
  shows "timed_out_error c' = timed_out_error c"
    and "repeated_errors_error c' = repeated_errors_error c"
    and "without_completion_error c' = without_completion_error c"
  using assms
  by (simp_all add: timed_out_error_def repeated_errors_error_def without_completion_error_def)

lemma messages_distinct:
  "distinct [message (timed_out_error c), message server_error,
             message (repeated_errors_error c), message (without_completion_error c)]"
  by (simp add: timed_out_error_def repeated_errors_error_def server_error_def
        without_completion_error_def new_Error_def)

lemma wait_loop_errors:
  assumes run: "wait_loop n env c w = Some (r, c', w')"
    and bodies: "\<forall>k d. snd (transport env k) = Inr d \<longrightarrow> readable_body d"
  shows "\<forall>e. r = Inl e \<longrightarrow>
           e \<in> {timed_out_error c, server_error, repeated_errors_error c,
                 without_completion_error c}"
proof (rule wait_loop_invariant [OF run,
      where I = "\<lambda>c1 w1. maxAttempts c1 = maxAttempts c \<and> maxDurationMs c1 = maxDurationMs c"
        and Q = "\<lambda>r c1 w1. \<forall>e. r = Inl e \<longrightarrow>
                   e \<in> {timed_out_error c, server_error, repeated_errors_error c,
                         without_completion_error c}"])
  show "maxAttempts c = maxAttempts c \<and> maxDurationMs c = maxDurationMs c" by simp
next
  fix c0 w0 c1 w1
  assume "maxAttempts c0 = maxAttempts c \<and> maxDurationMs c0 = maxDurationMs c"
    and b: "loop_body env c0 w0 = Continue c1 w1"
  moreover have "maxAttempts c1 = maxAttempts c0 \<and> maxDurationMs c1 = maxDurationMs c0"
    using loop_body_config b by blast
  ultimately show "maxAttempts c1 = maxAttempts c \<and> maxDurationMs c1 = maxDurationMs c"
    by simp
next
  fix c0 w0 r0 c1 w1
  assume inv: "maxAttempts c0 = maxAttempts c \<and> maxDurationMs c0 = maxDurationMs c"
    and b: "loop_body env c0 w0 = Done r0 c1 w1"
  have same: "timed_out_error c0 = timed_out_error c"
    "repeated_errors_error c0 = repeated_errors_error c"
    using inv error_of_config by blast+
  have body: "\<forall>d. snd (transport env (calls w0)) = Inr d \<longrightarrow> readable_body d"
    using bodies by blast
  show "\<forall>e. r0 = Inl e \<longrightarrow>
           e \<in> {timed_out_error c, server_error, repeated_errors_error c,
                 without_completion_error c}"
    by (rule loop_body_cases [where c = c0 and w = w0 and env = env])
      (use b same body in \<open>auto split: if_splits\<close>)
next
  fix c0 :: client and w0 :: world
  assume "maxAttempts c0 = maxAttempts c \<and> maxDurationMs c0 = maxDurationMs c"
  then have "without_completion_error c0 = without_completion_error c"
    using error_of_config by blast
  then show "\<forall>e. Inl (without_completion_error c0) = Inl e \<longrightarrow>
           e \<in> {timed_out_error c, server_error, repeated_errors_error c,
                 without_completion_error c}"
    by simp
qed

text \<open>
  A failed request leaves the attempt counter as it is, so within a call the error for
  repeated transport failures is never thrown.
\<close>

lemma repeated_errors_error_neq:
  "timed_out_error c0 \<noteq> repeated_errors_error c"
  "server_error \<noteq> repeated_errors_error c"
  "destructure_TypeError \<noteq> repeated_errors_error c"
  "convert_TypeError \<noteq> repeated_errors_error c"
  "maxAttempts c0 = maxAttempts c \<Longrightarrow> without_completion_error c0 \<noteq> repeated_errors_error c"
  by (simp_all add: timed_out_error_def repeated_errors_error_def server_error_def
        without_completion_error_def destructure_TypeError_def convert_TypeError_def
        new_Error_def)

lemma repeated_errors_error_unreachable:
  assumes run: "wait_loop n env c w = Some (r, c', w')"
  shows "r \<noteq> Inl (repeated_errors_error c)"
proof (rule wait_loop_invariant [OF run,
      where I = "\<lambda>c1 w1. maxAttempts c1 = maxAttempts c"
        and Q = "\<lambda>r c1 w1. r \<noteq> Inl (repeated_errors_error c)"])
  show "maxAttempts c = maxAttempts c" by simp
next
  fix c0 w0 c1 w1
  assume "maxAttempts c0 = maxAttempts c" and b: "loop_body env c0 w0 = Continue c1 w1"
  moreover have "maxAttempts c1 = maxAttempts c0" using loop_body_config b by blast
  ultimately show "maxAttempts c1 = maxAttempts c" by simp
next
  fix c0 w0 r0 c1 w1
  assume guard: "attempt c0 < maxAttempts c0" and b: "loop_body env c0 w0 = Done r0 c1 w1"
  show "r0 \<noteq> Inl (repeated_errors_error c)"
    by (rule loop_body_cases [where c = c0 and w = w0 and env = env])
      (use b guard in \<open>auto simp: repeated_errors_error_neq split: if_splits\<close>)
next
  fix c0 :: client and w0 :: world
  assume "maxAttempts c0 = maxAttempts c"
  then show "Inl (without_completion_error c0) \<noteq> Inl (repeated_errors_error c)"
    by (simp add: repeated_errors_error_neq)
qed

lemma failed_request_keeps_attempt:
  assumes "attempt c < maxAttempts c"
    and "\<not> maxDurationMs c < clock w - startTime c"
    and "snd (transport env (calls w)) = Inl msg"
  shows "loop_body env c w =
     Continue
       (c\<lparr>currentDelay := pollingStrategy c (attempt c) (currentDelay c) (HintObj None)\<rparr>)
       (sleep env (currentDelay c) (snd (getStatus env c w)))"
  using loop_body_failed [OF assms(2,3)] assms(1) by simp



lemma call_after_failed_request:
  assumes "attempt c < maxAttempts c"
    and "\<not> maxDurationMs c < clock w - startTime c"
    and "snd (transport env (calls w)) = Inl msg"
  shows "waitForCompletion (Suc n) env c w =
     waitForCompletion n env
       (c\<lparr>currentDelay := pollingStrategy c (attempt c) (currentDelay c) (HintObj None)\<rparr>)
       (sleep env (currentDelay c) (snd (getStatus env c w)))"
  using failed_request_keeps_attempt [OF assms] assms(1)
  by (simp add: waitForCompletion_def)

lemma call_after_readable_body:
  assumes "attempt c < maxAttempts c"
    and "\<not> maxDurationMs c < clock w - startTime c"
    and "snd (transport env (calls w)) = Inr (Fields result remainingSeconds)"
    and "converts_to_text result" and "converts_to_text remainingSeconds"
  shows "waitForCompletion (Suc n) env c w =
     (if result = Str ''completed''
      then Some (Inr ''completed'', c\<lparr>attempt := attempt c + 1\<rparr>, snd (getStatus env c w))
      else if result = Str ''error''
      then Some (Inl server_error, c\<lparr>attempt := attempt c + 1\<rparr>, snd (getStatus env c w))
      else waitForCompletion n env
             (c\<lparr>attempt := attempt c + 1,
                currentDelay := pollingStrategy c (attempt c + 1) (currentDelay c)
                                  (HintObj (Some remainingSeconds))\<rparr>)
             (sleep env (currentDelay c) (snd (getStatus env c w))))"
  using loop_body_fields [OF assms(2-5)] assms(1)
  by (simp add: waitForCompletion_def)

text \<open>Two runs that the examples below share.\<close>

lemma one_attempt_pending_run:
  "waitForCompletion 5 pending_env one_attempt_client (new_world 0) =
     Some (Inl (without_completion_error one_attempt_client),
           one_attempt_client\<lparr>attempt := 1, currentDelay := 2000\<rparr>,
           \<lparr>clock = 1000, calls = 1, sleeps = 1,
            trace = [Get ''http://localhost:3000/status'' [], Sleep 1000]\<rparr>)"
  by (simp add: run_simps pending_env_def one_attempt_client_def without_completion_error_def)

lemma late_call_run:
  "waitForCompletion 5 completed_env default_client (new_world 40000) =
     Some (Inl (timed_out_error default_client), default_client, new_world 40000)"
  by (simp add: run_simps completed_env_def default_client_def)

section \<open>The default polling strategy\<close>

text \<open>
  Claim C7. For every attempt index and every previous delay, the default strategy returns
  1000 when the hint carries a \<^verbatim>\<open>remainingSeconds\<close> that is a number strictly below 5, and
  twice the previous delay in every other case (no hint, \<^verbatim>\<open>remainingSeconds\<close> missing or not a
  number, or a number that is at least 5). In particular a previous delay of 1000 without a
  hint gives 2000, and a hint of 3 remaining seconds gives 1000 whatever the previous delay.
\<close>

theorem defaultPollingStrategy_rule:
  "defaultPollingStrategy attemptIndex previousDelayMs hint =
     (if \<exists>r. hint = HintObj (Some (Num r)) \<and> r < 5 then 1000 else previousDelayMs * 2)
   \<and> defaultPollingStrategy attemptIndex 1000 HintAbsent = 2000
   \<and> defaultPollingStrategy attemptIndex 1000 (HintObj None) = 2000
   \<and> defaultPollingStrategy attemptIndex previousDelayMs (HintObj (Some (Num 3))) = 1000"
proof -
  have "defaultPollingStrategy attemptIndex previousDelayMs hint =
     (if \<exists>r. hint = HintObj (Some (Num r)) \<and> r < 5 then 1000 else previousDelayMs * 2)"
  proof (cases hint)
    case HintAbsent
    then show ?thesis by simp
  next
    case (HintObj h)
    show ?thesis
    proof (cases h)
      case None
      with HintObj show ?thesis by simp
    next
      case (Some v)
      with HintObj show ?thesis by (cases v) simp_all
    qed
  qed
  then show ?thesis by simp
qed

theorem defaultPollingStrategy_rule_witness:
  "defaultPollingStrategy 4 8000 (HintObj (Some (Num 3))) = 1000
   \<and> defaultPollingStrategy 4 8000 (HintObj (Some (Num 5))) = 16000
   \<and> defaultPollingStrategy 4 8000 (HintObj (Some Undefined)) = 16000"
  using defaultPollingStrategy_rule [of 4 8000 "HintObj (Some (Num 3))"]
    defaultPollingStrategy_rule [of 4 8000 "HintObj (Some (Num 5))"]
    defaultPollingStrategy_rule [of 4 8000 "HintObj (Some Undefined)"]
  by simp

section \<open>The time budget\<close>

text \<open>
  Claim C5. In every iteration the elapsed time is checked first: when it is strictly
  greater than \<^verbatim>\<open>maxDurationMs\<close>, the iteration throws the time-out error and leaves the world
  as it was, so no request is issued; a call whose loop is entered in that state fails
  with the time-out error without a request.
\<close>

theorem timeout_checked_before_request:
  "maxDurationMs c < clock w - startTime c \<Longrightarrow>
     loop_body env c w = Done (Inl (timed_out_error c)) c w
     \<and> (attempt c < maxAttempts c \<longrightarrow>
          waitForCompletion (Suc n) env c w = Some (Inl (timed_out_error c), c, w))"
  by (simp add: loop_body_timed_out waitForCompletion_def)

theorem timeout_checked_before_request_witness:
  "maxDurationMs default_client < clock (new_world 30001) - startTime default_client
   \<and> attempt default_client < maxAttempts default_client
   \<and> waitForCompletion (Suc 0) completed_env default_client (new_world 30001) =
       Some (Inl (timed_out_error default_client), default_client, new_world 30001)"
  using timeout_checked_before_request [of default_client "new_world 30001" completed_env 0]
  by (simp add: default_client_def constructor_def no_options_def new_world_def)

section \<open>Terminal answers of the server\<close>

text \<open>
  Claim C6. When the request of an iteration delivers the result \<^verbatim>\<open>completed\<close>, the call
  returns the string \<^verbatim>\<open>completed\<close> at once; when it delivers \<^verbatim>\<open>error\<close>, the call throws the
  server error at once. In both cases the only thing that has happened in the world is
  that one request: no sleep and no further request. This holds for the first attempt as
  for any later one, and for every \<^verbatim>\<open>remainingSeconds\<close> that the log line can print: a number,
  a missing field and every other primitive value (see \<open>converts_to_text.simps\<close>).
\<close>

theorem completed_and_error_are_terminal:
  assumes "attempt c < maxAttempts c"
    and "\<not> maxDurationMs c < clock w - startTime c"
    and "transport env (calls w) = (latency, Inr (Fields result remainingSeconds))"
    and "converts_to_text remainingSeconds"
  shows "(result = Str ''completed'' \<longrightarrow>
            waitForCompletion (Suc n) env c w =
              Some (Inr ''completed'', c\<lparr>attempt := attempt c + 1\<rparr>,
                    w\<lparr>clock := clock w + int latency, calls := Suc (calls w),
                      trace := trace w @ [Get (baseUrl c @ ''/status'') (auth_headers (token c))]\<rparr>))
       \<and> (result = Str ''error'' \<longrightarrow>
            waitForCompletion (Suc n) env c w =
              Some (Inl server_error, c\<lparr>attempt := attempt c + 1\<rparr>,
                    w\<lparr>clock := clock w + int latency, calls := Suc (calls w),
                      trace := trace w @ [Get (baseUrl c @ ''/status'') (auth_headers (token c))]\<rparr>))"
proof -
  have body: "snd (transport env (calls w)) = Inr (Fields result remainingSeconds)"
    using assms(3) by simp
  have world: "snd (getStatus env c w) =
      w\<lparr>clock := clock w + int latency, calls := Suc (calls w),
        trace := trace w @ [Get (baseUrl c @ ''/status'') (auth_headers (token c))]\<rparr>"
    using assms(3) by (simp add: getStatus_world)
  show ?thesis
  proof (cases "converts_to_text result")
    case True
    show ?thesis
      using call_after_readable_body [OF assms(1,2) body True assms(4), of n] world
      by simp
  next
    case False
    then have "result \<noteq> Str ''completed''" "result \<noteq> Str ''error''" by auto
    then show ?thesis by simp
  qed
qed

theorem completed_and_error_are_terminal_witness:
  "waitForCompletion (Suc 0) completed_env default_client (new_world 0) =
     Some (Inr ''completed'', default_client\<lparr>attempt := 1\<rparr>,
           \<lparr>clock = 0, calls = 1, sleeps = 0, trace = [Get ''http://localhost:3000/status'' []]\<rparr>)
   \<and> waitForCompletion (Suc 0) error_env default_client (new_world 0) =
     Some (Inl server_error, default_client\<lparr>attempt := 1\<rparr>,
           \<lparr>clock = 0, calls = 1, sleeps = 0, trace = [Get ''http://localhost:3000/status'' []]\<rparr>)"
  using completed_and_error_are_terminal
          [of default_client "new_world 0" completed_env 0 "Str ''completed''" "Num 0" 0]
        completed_and_error_are_terminal
          [of default_client "new_world 0" error_env 0 "Str ''error''" Undefined 0]
  by (simp add: default_client_def constructor_def no_options_def new_world_def
        completed_env_def error_env_def auth_headers_def)

section \<open>What a call writes\<close>

text \<open>
  Claim C10. A call of \<^verbatim>\<open>waitForCompletion\<close> leaves \<^verbatim>\<open>baseUrl\<close>, \<^verbatim>\<open>initialDelay\<close>, \<^verbatim>\<open>maxAttempts\<close>,
  \<^verbatim>\<open>pollingStrategy\<close>, \<^verbatim>\<open>maxDurationMs\<close>, \<^verbatim>\<open>token\<close> and \<^verbatim>\<open>startTime\<close> as they were: the instance
  after the call is the instance before it with, at most, new values of \<^verbatim>\<open>attempt\<close> and
  \<^verbatim>\<open>currentDelay\<close>.
\<close>

theorem configuration_untouched:
  assumes "waitForCompletion n env c w = Some (r, c', w')"
  shows "c' = c\<lparr>attempt := attempt c', currentDelay := currentDelay c'\<rparr>
       \<and> baseUrl c' = baseUrl c \<and> initialDelay c' = initialDelay c
       \<and> maxAttempts c' = maxAttempts c \<and> pollingStrategy c' = pollingStrategy c
       \<and> maxDurationMs c' = maxDurationMs c \<and> token c' = token c
       \<and> startTime c' = startTime c"
proof -
  have eq: "c' = c\<lparr>attempt := attempt c', currentDelay := currentDelay c'\<rparr>"
    using assms wait_loop_frame by (simp add: waitForCompletion_def)
  show ?thesis
    using eq arg_cong [OF eq, of baseUrl] arg_cong [OF eq, of initialDelay]
      arg_cong [OF eq, of maxAttempts] arg_cong [OF eq, of pollingStrategy]
      arg_cong [OF eq, of maxDurationMs] arg_cong [OF eq, of token]
      arg_cong [OF eq, of startTime]
    by simp
qed

theorem configuration_untouched_witness:
  "waitForCompletion 5 pending_env one_attempt_client (new_world 0) =
     Some (Inl (without_completion_error one_attempt_client),
           one_attempt_client\<lparr>attempt := 1, currentDelay := 2000\<rparr>,
           \<lparr>clock = 1000, calls = 1, sleeps = 1,
            trace = [Get ''http://localhost:3000/status'' [], Sleep 1000]\<rparr>)
   \<and> baseUrl (one_attempt_client\<lparr>attempt := 1, currentDelay := 2000\<rparr>) = baseUrl one_attempt_client
   \<and> maxAttempts (one_attempt_client\<lparr>attempt := 1, currentDelay := 2000\<rparr>) = maxAttempts one_attempt_client
   \<and> startTime (one_attempt_client\<lparr>attempt := 1, currentDelay := 2000\<rparr>) = startTime one_attempt_client"
  using configuration_untouched [OF one_attempt_pending_run] one_attempt_pending_run
  by simp

section \<open>The attempt budget\<close>

text \<open>
  Claim C8. The attempt counter never exceeds \<^verbatim>\<open>maxAttempts\<close> where a call ends, whether it
  returns or throws: a client made by the constructor with a \<^verbatim>\<open>maxAttempts\<close> that is not
  negative starts with its counter within the bound, and a call that starts within the
  bound ends within it (so the same holds after any number of calls in sequence).
\<close>

theorem attempt_never_exceeds_maxAttempts:
  "(0 \<le> maxAttempts (constructor url opts now) \<longrightarrow>
      attempt (constructor url opts now) \<le> maxAttempts (constructor url opts now))
   \<and> (attempt c \<le> maxAttempts c \<longrightarrow> waitForCompletion n env c w = Some (r, c', w') \<longrightarrow>
        attempt c' \<le> maxAttempts c')"
  using wait_loop_attempt_bounded [of n env c w r c' w']
  by (simp add: waitForCompletion_def constructor_def)

theorem attempt_never_exceeds_maxAttempts_witness:
  "0 \<le> maxAttempts one_attempt_client
   \<and> attempt one_attempt_client \<le> maxAttempts one_attempt_client
   \<and> waitForCompletion 5 pending_env one_attempt_client (new_world 0) =
     Some (Inl (without_completion_error one_attempt_client),
           one_attempt_client\<lparr>attempt := 1, currentDelay := 2000\<rparr>,
           \<lparr>clock = 1000, calls = 1, sleeps = 1,
            trace = [Get ''http://localhost:3000/status'' [], Sleep 1000]\<rparr>)
   \<and> attempt (one_attempt_client\<lparr>attempt := 1, currentDelay := 2000\<rparr>)
       \<le> maxAttempts (one_attempt_client\<lparr>attempt := 1, currentDelay := 2000\<rparr>)"
  using attempt_never_exceeds_maxAttempts
          [of "''http://localhost:3000''" "no_options\<lparr>opt_maxAttempts := Some 1\<rparr>" 0
              one_attempt_client 5 pending_env "new_world 0"
              "Inl (without_completion_error one_attempt_client)"
              "one_attempt_client\<lparr>attempt := 1, currentDelay := 2000\<rparr>"
              "\<lparr>clock = 1000, calls = 1, sleeps = 1,
                trace = [Get ''http://localhost:3000/status'' [], Sleep 1000]\<rparr>"]
        one_attempt_pending_run
  by (simp add: one_attempt_client_def constructor_def no_options_def)

section \<open>The delay between attempts\<close>

text \<open>
  Claim C9 says that \<^verbatim>\<open>currentDelay\<close> is never negative because a negative answer of the
  strategy is clamped before it is slept. The client has no clamp: with a strategy that
  answers \<open>- 5\<close>, the delay becomes \<open>- 5\<close> after the first pending answer and the second sleep
  is asked to last \<open>- 5\<close> milliseconds.
\<close>

theorem negative_delay_not_clamped:
  "waitForCompletion 5 pending_env negative_delay_client (new_world 0) =
     Some (Inl (without_completion_error negative_delay_client),
           negative_delay_client\<lparr>attempt := 2, currentDelay := - 5\<rparr>,
           \<lparr>clock = 1000, calls = 2, sleeps = 2,
            trace = [Get ''http://localhost:3000/status'' [], Sleep 1000,
                     Get ''http://localhost:3000/status'' [], Sleep (- 5)]\<rparr>)"
  by (simp add: run_simps pending_env_def negative_delay_client_def without_completion_error_def)

text \<open>
  Claim C9, as the client has it: there is no clamp and no floor. After a failed request
  and after an answer handled as pending alike, the call sleeps for exactly the current
  delay (the timer is asked for that number, negative or not) and then goes on with
  \<^verbatim>\<open>currentDelay\<close> set to exactly what the strategy answers for the attempt counter, the
  current delay and the hint. So when the delay is not negative at the start of the call
  and the strategy answers a delay that is not negative whenever the previous one is not
  (as the default strategy does), the delay is not negative where the call ends and no
  sleep of the call has a negative duration.
\<close>

theorem delay_is_the_strategy_answer:
  "(attempt c < maxAttempts c \<and> \<not> maxDurationMs c < clock w - startTime c
      \<and> snd (transport env (calls w)) = Inl msg \<longrightarrow>
      waitForCompletion (Suc n) env c w =
        waitForCompletion n env
          (c\<lparr>currentDelay := pollingStrategy c (attempt c) (currentDelay c) (HintObj None)\<rparr>)
          (sleep env (currentDelay c) (snd (getStatus env c w))))
   \<and> (attempt c < maxAttempts c \<and> \<not> maxDurationMs c < clock w - startTime c
      \<and> snd (transport env (calls w)) = Inr (Fields result remainingSeconds)
      \<and> converts_to_text result \<and> converts_to_text remainingSeconds
      \<and> result \<noteq> Str ''completed'' \<and> result \<noteq> Str ''error'' \<longrightarrow>
      waitForCompletion (Suc n) env c w =
        waitForCompletion n env
          (c\<lparr>attempt := attempt c + 1,
             currentDelay := pollingStrategy c (attempt c + 1) (currentDelay c)
                               (HintObj (Some remainingSeconds))\<rparr>)
          (sleep env (currentDelay c) (snd (getStatus env c w))))
   \<and> trace (sleep env ms w) = trace w @ [Sleep ms]
   \<and> (waitForCompletion n env c w = Some (r, c', w') \<and> 0 \<le> currentDelay c
      \<and> (\<forall>a p h. 0 \<le> p \<longrightarrow> 0 \<le> pollingStrategy c a p h)
      \<and> (\<forall>d. Sleep d \<in> set (trace w) \<longrightarrow> 0 \<le> d) \<longrightarrow>
      0 \<le> currentDelay c' \<and> (\<forall>d. Sleep d \<in> set (trace w') \<longrightarrow> 0 \<le> d))"
proof (intro conjI impI)
  assume "attempt c < maxAttempts c \<and> \<not> maxDurationMs c < clock w - startTime c
      \<and> snd (transport env (calls w)) = Inl msg"
  then show "waitForCompletion (Suc n) env c w =
        waitForCompletion n env
          (c\<lparr>currentDelay := pollingStrategy c (attempt c) (currentDelay c) (HintObj None)\<rparr>)
          (sleep env (currentDelay c) (snd (getStatus env c w)))"
    using call_after_failed_request [of c w env msg n] by blast
next
  assume a: "attempt c < maxAttempts c \<and> \<not> maxDurationMs c < clock w - startTime c
      \<and> snd (transport env (calls w)) = Inr (Fields result remainingSeconds)
      \<and> converts_to_text result \<and> converts_to_text remainingSeconds
      \<and> result \<noteq> Str ''completed'' \<and> result \<noteq> Str ''error''"
  then have "attempt c < maxAttempts c" "\<not> maxDurationMs c < clock w - startTime c"
    "snd (transport env (calls w)) = Inr (Fields result remainingSeconds)"
    "converts_to_text result" "converts_to_text remainingSeconds"
    by blast+
  note eq = call_after_readable_body [OF this, of n]
  from a have "result \<noteq> Str ''completed''" "result \<noteq> Str ''error''" by blast+
  then show "waitForCompletion (Suc n) env c w =
        waitForCompletion n env
          (c\<lparr>attempt := attempt c + 1,
             currentDelay := pollingStrategy c (attempt c + 1) (currentDelay c)
                               (HintObj (Some remainingSeconds))\<rparr>)
          (sleep env (currentDelay c) (snd (getStatus env c w)))"
    by (simp only: eq if_False)
next
  show "trace (sleep env ms w) = trace w @ [Sleep ms]" by (rule sleep_trace)
next
  assume a: "waitForCompletion n env c w = Some (r, c', w') \<and> 0 \<le> currentDelay c
      \<and> (\<forall>a p h. 0 \<le> p \<longrightarrow> 0 \<le> pollingStrategy c a p h)
      \<and> (\<forall>d. Sleep d \<in> set (trace w) \<longrightarrow> 0 \<le> d)"
  then have run: "wait_loop n env c w = Some (r, c', w')"
    by (simp add: waitForCompletion_def)
  from a have "0 \<le> currentDelay c"
    "\<forall>a p h. 0 \<le> p \<longrightarrow> 0 \<le> pollingStrategy c a p h"
    "\<forall>d. Sleep d \<in> set (trace w) \<longrightarrow> 0 \<le> d"
    by blast+
  from wait_loop_delay_nonneg [OF run this]
  show "0 \<le> currentDelay c'" "\<forall>d. Sleep d \<in> set (trace w') \<longrightarrow> 0 \<le> d" by blast+
qed

theorem delay_is_the_strategy_answer_witness:
  "waitForCompletion (Suc 4) pending_env negative_delay_client (new_world 0) =
     waitForCompletion 4 pending_env
       (negative_delay_client\<lparr>attempt := 1, currentDelay := - 5\<rparr>)
       \<lparr>clock = 1000, calls = 1, sleeps = 1,
        trace = [Get ''http://localhost:3000/status'' [], Sleep 1000]\<rparr>
   \<and> waitForCompletion (Suc 4) refusing_env default_client (new_world 0) =
     waitForCompletion 4 refusing_env (default_client\<lparr>currentDelay := 2000\<rparr>)
       \<lparr>clock = 1000, calls = 1, sleeps = 1,
        trace = [Get ''http://localhost:3000/status'' [], Sleep 1000]\<rparr>
   \<and> 0 \<le> currentDelay one_attempt_client
   \<and> 0 \<le> pollingStrategy one_attempt_client 1 1000 (HintObj (Some (Num 10)))
   \<and> waitForCompletion 5 pending_env one_attempt_client (new_world 0) =
     Some (Inl (without_completion_error one_attempt_client),
           one_attempt_client\<lparr>attempt := 1, currentDelay := 2000\<rparr>,
           \<lparr>clock = 1000, calls = 1, sleeps = 1,
            trace = [Get ''http://localhost:3000/status'' [], Sleep 1000]\<rparr>)
   \<and> 0 \<le> currentDelay (one_attempt_client\<lparr>attempt := 1, currentDelay := 2000\<rparr>)"
proof -
  have pending: "waitForCompletion (Suc 4) pending_env negative_delay_client (new_world 0) =
     waitForCompletion 4 pending_env
       (negative_delay_client\<lparr>attempt := 1, currentDelay := - 5\<rparr>)
       \<lparr>clock = 1000, calls = 1, sleeps = 1,
        trace = [Get ''http://localhost:3000/status'' [], Sleep 1000]\<rparr>"
    using delay_is_the_strategy_answer
            [of negative_delay_client "new_world 0" pending_env "''unused''" 4
                "Str ''pending''" "Num 10"]
    by (simp add: negative_delay_client_def pending_env_def constructor_def no_options_def
          new_world_def getStatus_world sleep_def auth_headers_def)
  have failed: "waitForCompletion (Suc 4) refusing_env default_client (new_world 0) =
     waitForCompletion 4 refusing_env (default_client\<lparr>currentDelay := 2000\<rparr>)
       \<lparr>clock = 1000, calls = 1, sleeps = 1,
        trace = [Get ''http://localhost:3000/status'' [], Sleep 1000]\<rparr>"
    using delay_is_the_strategy_answer
            [of default_client "new_world 0" refusing_env
                "''connect ECONNREFUSED 127.0.0.1:3000''" 4]
    by (simp add: default_client_def refusing_env_def constructor_def no_options_def
          new_world_def getStatus_world sleep_def auth_headers_def)
  have delay: "0 \<le> currentDelay one_attempt_client"
    by (simp add: one_attempt_client_def constructor_def no_options_def)
  have strategy: "\<forall>a p h. 0 \<le> p \<longrightarrow> 0 \<le> pollingStrategy one_attempt_client a p h"
    by (simp add: one_attempt_client_def constructor_def no_options_def
          defaultPollingStrategy_nonneg)
  have sleeps: "\<forall>d. Sleep d \<in> set (trace (new_world 0)) \<longrightarrow> 0 \<le> d"
    by (simp add: new_world_def)
  have "0 \<le> currentDelay (one_attempt_client\<lparr>attempt := 1, currentDelay := 2000\<rparr>)"
    using delay_is_the_strategy_answer
            [of one_attempt_client "new_world 0" pending_env _ 5 _ _ _
                "Inl (without_completion_error one_attempt_client)"
                "one_attempt_client\<lparr>attempt := 1, currentDelay := 2000\<rparr>"]
          one_attempt_pending_run delay strategy sleeps
    by simp
  then show ?thesis
    using pending failed delay strategy one_attempt_pending_run by simp
qed

section \<open>Transport failures\<close>

text \<open>
  Claim C1 (the run of the client on its scenario). The transport refuses every request
  and \<^verbatim>\<open>maxAttempts\<close> is 3. A failed request skips \<^verbatim>\<open>this.attempt += 1\<close>, so the counter stays
  at 0 and the test \<^verbatim>\<open>this.attempt >= this.maxAttempts\<close> in the \<^verbatim>\<open>catch\<close> block never holds:
  the client makes five requests, sleeps 1000, 2000, 4000, 8000 and 16000 milliseconds,
  and ends with the time-out error, not with the error for repeated transport failures
  (which no call can throw, see \<open>repeated_errors_error_unreachable\<close>).
\<close>

theorem failing_transport_run:
  "waitForCompletion 10 refusing_env three_attempts_client (new_world 0) =
     Some (Inl (new_Error ''[ERROR] Timed out after 30000ms without completion.''),
           three_attempts_client\<lparr>currentDelay := 32000\<rparr>,
           \<lparr>clock = 31000, calls = 5, sleeps = 5,
            trace = [Get ''http://localhost:3000/status'' [], Sleep 1000,
                     Get ''http://localhost:3000/status'' [], Sleep 2000,
                     Get ''http://localhost:3000/status'' [], Sleep 4000,
                     Get ''http://localhost:3000/status'' [], Sleep 8000,
                     Get ''http://localhost:3000/status'' [], Sleep 16000]\<rparr>)
   \<and> attempt (three_attempts_client\<lparr>currentDelay := 32000\<rparr>) = 0
   \<and> maxAttempts three_attempts_client = 3"
proof -
  have msg: "timed_out_error three_attempts_client =
          new_Error ''[ERROR] Timed out after 30000ms without completion.''"
    by (simp add: three_attempts_client_def constructor_def no_options_def message_simps)
  have run: "waitForCompletion 10 refusing_env three_attempts_client (new_world 0) =
     Some (Inl (timed_out_error three_attempts_client),
           three_attempts_client\<lparr>currentDelay := 32000\<rparr>,
           \<lparr>clock = 31000, calls = 5, sleeps = 5,
            trace = [Get ''http://localhost:3000/status'' [], Sleep 1000,
                     Get ''http://localhost:3000/status'' [], Sleep 2000,
                     Get ''http://localhost:3000/status'' [], Sleep 4000,
                     Get ''http://localhost:3000/status'' [], Sleep 8000,
                     Get ''http://localhost:3000/status'' [], Sleep 16000]\<rparr>)"
    by (simp add: run_simps refusing_env_def three_attempts_client_def timed_out_error_def)
  show ?thesis
    using run msg by (simp add: three_attempts_client_def constructor_def no_options_def)
qed

section \<open>Where the state of the loop lives\<close>




section \<open>The errors a caller sees\<close>

text \<open>
  Claim C3 says that every failing exit is one of four kinds and that a caller can tell
  the kinds apart otherwise than by the text of the message. The client throws plain
  \<^verbatim>\<open>Error\<close> objects: the time-out, the server error and the exhausted attempts all have the
  class name \<^verbatim>\<open>Error\<close> and differ in their message only. A body that is \<^verbatim>\<open>null\<close> makes the call
  fail with the TypeError of the destructuring, and a body with a field that the log line
  cannot turn into text makes it fail with the TypeError of that conversion; neither is one
  of the four.
\<close>

theorem failures_differ_in_message_only:
  "waitForCompletion 5 completed_env default_client (new_world 40000) =
     Some (Inl \<lparr>name = ''Error'',
                message = ''[ERROR] Timed out after 30000ms without completion.''\<rparr>,
           default_client, new_world 40000)
   \<and> waitForCompletion 5 error_env default_client (new_world 0) =
     Some (Inl \<lparr>name = ''Error'', message = ''[ERROR] Server returned \"error\" status.''\<rparr>,
           default_client\<lparr>attempt := 1\<rparr>,
           \<lparr>clock = 0, calls = 1, sleeps = 0, trace = [Get ''http://localhost:3000/status'' []]\<rparr>)
   \<and> waitForCompletion 5 pending_env one_attempt_client (new_world 0) =
     Some (Inl \<lparr>name = ''Error'',
                message = ''[ERROR] Max attempts (1) reached without completion.''\<rparr>,
           one_attempt_client\<lparr>attempt := 1, currentDelay := 2000\<rparr>,
           \<lparr>clock = 1000, calls = 1, sleeps = 1,
            trace = [Get ''http://localhost:3000/status'' [], Sleep 1000]\<rparr>)
   \<and> waitForCompletion 5 null_body_env default_client (new_world 0) =
     Some (Inl destructure_TypeError, default_client\<lparr>attempt := 1\<rparr>,
           \<lparr>clock = 0, calls = 1, sleeps = 0, trace = [Get ''http://localhost:3000/status'' []]\<rparr>)
   \<and> name destructure_TypeError = ''TypeError''
   \<and> waitForCompletion 5 unprintable_env default_client (new_world 0) =
     Some (Inl convert_TypeError, default_client\<lparr>attempt := 1\<rparr>,
           \<lparr>clock = 0, calls = 1, sleeps = 0, trace = [Get ''http://localhost:3000/status'' []]\<rparr>)
   \<and> name convert_TypeError = ''TypeError''"
proof -
  have timed_out: "timed_out_error default_client =
      \<lparr>name = ''Error'', message = ''[ERROR] Timed out after 30000ms without completion.''\<rparr>"
    by (simp add: default_client_def constructor_def no_options_def message_simps)
  have exhausted: "without_completion_error one_attempt_client =
      \<lparr>name = ''Error'', message = ''[ERROR] Max attempts (1) reached without completion.''\<rparr>"
    by (simp add: one_attempt_client_def constructor_def no_options_def message_simps)
  have remote: "waitForCompletion 5 error_env default_client (new_world 0) =
     Some (Inl \<lparr>name = ''Error'', message = ''[ERROR] Server returned \"error\" status.''\<rparr>,
           default_client\<lparr>attempt := 1\<rparr>,
           \<lparr>clock = 0, calls = 1, sleeps = 0, trace = [Get ''http://localhost:3000/status'' []]\<rparr>)"
    by (simp add: run_simps error_env_def default_client_def server_error_def new_Error_def)
  have null_body: "waitForCompletion 5 null_body_env default_client (new_world 0) =
     Some (Inl destructure_TypeError, default_client\<lparr>attempt := 1\<rparr>,
           \<lparr>clock = 0, calls = 1, sleeps = 0, trace = [Get ''http://localhost:3000/status'' []]\<rparr>)"
    by (simp add: run_simps null_body_env_def default_client_def)
  have unprintable: "waitForCompletion 5 unprintable_env default_client (new_world 0) =
     Some (Inl convert_TypeError, default_client\<lparr>attempt := 1\<rparr>,
           \<lparr>clock = 0, calls = 1, sleeps = 0, trace = [Get ''http://localhost:3000/status'' []]\<rparr>)"
    by (simp add: run_simps unprintable_env_def default_client_def)
  have "name destructure_TypeError = ''TypeError''" "name convert_TypeError = ''TypeError''"
    by (simp_all add: destructure_TypeError_def convert_TypeError_def)
  then show ?thesis
    using late_call_run one_attempt_pending_run
    by (simp only: timed_out exhausted remote null_body unprintable)
qed

text \<open>
  Claim C3, as the client has it: when every body that the transport delivers is readable
  (it is not \<^verbatim>\<open>null\<close> or \<^verbatim>\<open>undefined\<close>, and its \<^verbatim>\<open>result\<close> and \<^verbatim>\<open>remainingSeconds\<close> convert to text,
  as every primitive value does), every failing exit throws one of four errors (time-out,
  server error, attempts used up with transport errors, attempts used up without
  completion). Each is a plain \<^verbatim>\<open>Error\<close>; their messages are pairwise different, and the
  message is all that tells them apart.
\<close>

theorem failures_told_apart_by_message_only:
  assumes "\<forall>k d. snd (transport env k) = Inr d \<longrightarrow> readable_body d"
    and "waitForCompletion n env c w = Some (Inl e, c', w')"
  shows "e \<in> {timed_out_error c, server_error, repeated_errors_error c,
               without_completion_error c}
       \<and> name e = ''Error''
       \<and> distinct [message (timed_out_error c), message server_error,
                    message (repeated_errors_error c), message (without_completion_error c)]"
proof -
  have mem: "e \<in> {timed_out_error c, server_error, repeated_errors_error c,
               without_completion_error c}"
    using wait_loop_errors [OF _ assms(1), of n c w "Inl e" c' w'] assms(2)
    by (simp add: waitForCompletion_def)
  then have "name e = ''Error''"
    by (auto simp: timed_out_error_def repeated_errors_error_def server_error_def
          without_completion_error_def new_Error_def)
  with mem messages_distinct show ?thesis by blast
qed

theorem failures_told_apart_by_message_only_witness:
  "readable_body (Fields (Str ''pending'') (Num 10))
   \<and> waitForCompletion 5 pending_env one_attempt_client (new_world 0) =
     Some (Inl (without_completion_error one_attempt_client),
           one_attempt_client\<lparr>attempt := 1, currentDelay := 2000\<rparr>,
           \<lparr>clock = 1000, calls = 1, sleeps = 1,
            trace = [Get ''http://localhost:3000/status'' [], Sleep 1000]\<rparr>)
   \<and> without_completion_error one_attempt_client
       \<in> {timed_out_error one_attempt_client, server_error,
           repeated_errors_error one_attempt_client,
           without_completion_error one_attempt_client}
   \<and> name (without_completion_error one_attempt_client) = ''Error''"
proof -
  have bodies: "\<forall>k d. snd (transport pending_env k) = Inr d \<longrightarrow> readable_body d"
    by (simp add: pending_env_def)
  show ?thesis
    using failures_told_apart_by_message_only [OF bodies one_attempt_pending_run]
      one_attempt_pending_run
    by simp
qed

section \<open>Results outside the three documented ones\<close>

text \<open>
  Claim C4 says that a result other than \<^verbatim>\<open>pending\<close>, \<^verbatim>\<open>completed\<close> and \<^verbatim>\<open>error\<close> goes down
  the path of a failed request. The client sends it down the \<^verbatim>\<open>else\<close> branch of a pending
  answer: on the result \<^verbatim>\<open>processing\<close> with 3 seconds remaining the attempt counter becomes
  1 and the strategy sees the hint (next delay 1000), whereas a failed request leaves the
  counter at 0 and gives the strategy an empty hint (next delay 2000).
\<close>

theorem unknown_result_is_not_a_transport_failure:
  "loop_body processing_env default_client (new_world 0) =
     Continue (default_client\<lparr>attempt := 1, currentDelay := 1000\<rparr>)
       \<lparr>clock = 1000, calls = 1, sleeps = 1,
        trace = [Get ''http://localhost:3000/status'' [], Sleep 1000]\<rparr>
   \<and> loop_body refusing_env default_client (new_world 0) =
     Continue (default_client\<lparr>currentDelay := 2000\<rparr>)
       \<lparr>clock = 1000, calls = 1, sleeps = 1,
        trace = [Get ''http://localhost:3000/status'' [], Sleep 1000]\<rparr>"
  by (simp add: run_simps processing_env_def refusing_env_def default_client_def)

text \<open>
  Claim C4, as the client has it: every result other than \<^verbatim>\<open>completed\<close> and \<^verbatim>\<open>error\<close>, so
  \<^verbatim>\<open>pending\<close> and any unknown value alike, is handled as pending, provided the log line
  can turn the \<^verbatim>\<open>result\<close> and the \<^verbatim>\<open>remainingSeconds\<close> of the body into text (as it can for
  every primitive value): the attempt counter goes up by one, the client sleeps for the
  current delay, and the strategy computes the next delay from the \<^verbatim>\<open>remainingSeconds\<close> of
  the body.
\<close>

theorem unknown_result_handled_as_pending:
  assumes "\<not> maxDurationMs c < clock w - startTime c"
    and "transport env (calls w) = (latency, Inr (Fields result remainingSeconds))"
    and "result \<noteq> Str ''completed''" and "result \<noteq> Str ''error''"
    and "converts_to_text result" and "converts_to_text remainingSeconds"
  shows "loop_body env c w =
     Continue
       (c\<lparr>attempt := attempt c + 1,
          currentDelay := pollingStrategy c (attempt c + 1) (currentDelay c)
                            (HintObj (Some remainingSeconds))\<rparr>)
       (sleep env (currentDelay c)
          (w\<lparr>clock := clock w + int latency, calls := Suc (calls w),
             trace := trace w @ [Get (baseUrl c @ ''/status'') (auth_headers (token c))]\<rparr>))"
proof -
  have body: "snd (transport env (calls w)) = Inr (Fields result remainingSeconds)"
    using assms(2) by simp
  have world: "snd (getStatus env c w) =
      w\<lparr>clock := clock w + int latency, calls := Suc (calls w),
        trace := trace w @ [Get (baseUrl c @ ''/status'') (auth_headers (token c))]\<rparr>"
    using assms(2) by (simp add: getStatus_world)
  show ?thesis
    using loop_body_fields [OF assms(1) body assms(5,6)] assms(3,4) world by simp
qed

theorem unknown_result_handled_as_pending_witness:
  "loop_body processing_env default_client (new_world 0) =
     Continue (default_client\<lparr>attempt := 1, currentDelay := 1000\<rparr>)
       \<lparr>clock = 1000, calls = 1, sleeps = 1,
        trace = [Get ''http://localhost:3000/status'' [], Sleep 1000]\<rparr>"
  using unknown_result_handled_as_pending
          [of default_client "new_world 0" processing_env 0 "Str ''processing''" "Num 3"]
  by (simp add: default_client_def constructor_def no_options_def new_world_def
        processing_env_def auth_headers_def sleep_def)

end
